theory Spec2Isabelle
  imports Main
begin

section \<open>The webhook receiver and forwarder of \<^verbatim>\<open>webhook_server.py\<close>\<close>

text \<open>
  The program is one Flask view function, \<^verbatim>\<open>webhook\<close>. It reads \<^verbatim>\<open>request.json\<close>,
  rejects a falsy value with HTTP 400, logs and prints the alert, forwards it with
  \<^verbatim>\<open>requests.post\<close> and answers 200 or 500. Everything it touches outside itself is made
  explicit here: the inbound request and the clock, the string conversion of the f-strings,
  the standard output's readiness and the remote endpoint are inputs; the log file, the
  standard output and the outbound calls are a state that the handler takes and returns
  extended.
\<close>

subsection \<open>Decoded JSON values\<close>

text \<open>
  A Python \<^verbatim>\<open>float\<close>: a finite double is \<open>\<plusminus> mantissa * 2 ^ exponent\<close>; the two infinities and
  NaN are what Python's decoder makes of the literals \<^verbatim>\<open>Infinity\<close>, \<^verbatim>\<open>-Infinity\<close>, \<^verbatim>\<open>NaN\<close>.
\<close>

datatype pyfloat =
    Finite (negative: bool) (mantissa: nat) (exponent: int)
  | Infinite (negative: bool)
  | NaN

text \<open>
  What \<^verbatim>\<open>request.json\<close> evaluates to: \<^verbatim>\<open>None\<close> (\<open>JNull\<close>), a \<^verbatim>\<open>bool\<close>, an \<^verbatim>\<open>int\<close>, a
  \<^verbatim>\<open>float\<close>, a \<^verbatim>\<open>str\<close>, a \<^verbatim>\<open>list\<close> or a \<^verbatim>\<open>dict\<close> with string keys, in insertion order.
\<close>

datatype json =
    JNull
  | JBool bool
  | JInt int
  | JFloat pyfloat
  | JString string
  | JArray "json list"
  | JObject "(string \<times> json) list"

text \<open>Python's truth value of such a value, which \<^verbatim>\<open>not data\<close> negates.\<close>

fun truthy :: "json \<Rightarrow> bool" where
  "truthy JNull = False"
| "truthy (JBool b) = b"
| "truthy (JInt n) = (n \<noteq> 0)"
| "truthy (JFloat (Finite s m e)) = (m \<noteq> 0)"
| "truthy (JFloat (Infinite s)) = True"
| "truthy (JFloat NaN) = True"
| "truthy (JString s) = (s \<noteq> [])"
| "truthy (JArray xs) = (xs \<noteq> [])"
| "truthy (JObject kvs) = (kvs \<noteq> [])"

subsection \<open>The inbound request\<close>

text \<open>
  An exception object, as far as the handler looks at it: its \<^verbatim>\<open>str()\<close>. Only instances of
  \<^verbatim>\<open>Exception\<close> are modelled, which is what \<^verbatim>\<open>request.json\<close>, \<^verbatim>\<open>print\<close> and
  \<^verbatim>\<open>requests.post\<close> raise.
\<close>

datatype pyexn = PyException (str_of: string)

text \<open>
  The body of a POST to \<^verbatim>\<open>/webhook\<close>. Decoding is Flask's work, not the program's, so a
  request comes with its outcome:
  \<^item> \<open>NoJson r\<close>: the body is missing or is not valid JSON. Depending on the Flask version
    and the content type, \<^verbatim>\<open>request.json\<close> then raises (\<open>r = Some e\<close>: the framework answers,
    the handler's code after line 16 does not run) or evaluates to \<^verbatim>\<open>None\<close> (\<open>r = None\<close>).
  \<^item> \<open>ValidJson raw v\<close>: the body is the text \<open>raw\<close>, valid JSON sent as
    \<^verbatim>\<open>application/json\<close>, and \<^verbatim>\<open>request.json\<close> evaluates to its decoded value \<open>v\<close>.
\<close>

datatype request_body =
    NoJson "pyexn option"
  | ValidJson (raw: string) (decoded: json)

fun request_json :: "request_body \<Rightarrow> pyexn + json" where
  "request_json (NoJson None) = Inr JNull"
| "request_json (NoJson (Some e)) = Inl e"
| "request_json (ValidJson b v) = Inr v"

fun valid_json_body :: "request_body \<Rightarrow> bool" where
  "valid_json_body (NoJson r) = False"
| "valid_json_body (ValidJson b v) = True"

subsection \<open>The outside world\<close>

text \<open>One call of \<^verbatim>\<open>requests.post(url, json=..., timeout=...)\<close>.\<close>

record outbound_call =
  http_method :: string
  url :: string
  json_arg :: json
  timeout :: int

text \<open>
  How such a call ends: with a response, of which the handler reads \<^verbatim>\<open>status_code\<close> and
  \<^verbatim>\<open>text\<close> (the two arguments of \<open>Responded\<close>), or with an exception (timeout, connection
  error, and so on).
\<close>

datatype post_outcome =
    Responded int string
  | Raised pyexn

text \<open>
  What the handler reads from its surroundings: the clock, already formatted by
  \<^verbatim>\<open>strftime("%Y-%m-%d %H:%M:%S")\<close>; Python's \<^verbatim>\<open>str()\<close> of the decoded payload; what writing a
  line to the standard output raises, if anything (\<^verbatim>\<open>UnicodeEncodeError\<close> for text that the
  stream's encoding cannot express, \<^verbatim>\<open>ValueError\<close> or \<^verbatim>\<open>OSError\<close> for a closed or broken
  stream); and the remote endpoint's behaviour.
\<close>

record env =
  now :: string
  py_str :: "json \<Rightarrow> string"
  print_raises :: "string \<Rightarrow> pyexn option"
  post :: "outbound_call \<Rightarrow> post_outcome"

datatype log_level = INFO | ERROR

record log_record =
  level :: log_level
  message :: string

text \<open>
  What the handler writes: the records appended to \<^verbatim>\<open>webhook.log\<close>, the lines printed, and
  the outbound calls made, each oldest first.
\<close>

record world =
  log :: "log_record list"
  stdout :: "string list"
  sent :: "outbound_call list"

definition logging_info :: "string \<Rightarrow> world \<Rightarrow> world" where
  "logging_info msg w = w\<lparr>log := log w @ [\<lparr>level = INFO, message = msg\<rparr>]\<rparr>"

definition logging_error :: "string \<Rightarrow> world \<Rightarrow> world" where
  "logging_error msg w = w\<lparr>log := log w @ [\<lparr>level = ERROR, message = msg\<rparr>]\<rparr>"

text \<open>\<^verbatim>\<open>print(line)\<close>: the line is written, or the exception of the stream is raised.\<close>

definition print :: "env \<Rightarrow> string \<Rightarrow> world \<Rightarrow> pyexn + world" where
  "print E line w =
     (case print_raises E line of
        Some e \<Rightarrow> Inl e
      | None \<Rightarrow> Inr (w\<lparr>stdout := stdout w @ [line]\<rparr>))"

definition requests_post :: "env \<Rightarrow> string \<Rightarrow> json \<Rightarrow> int \<Rightarrow> world \<Rightarrow> post_outcome \<times> world" where
  "requests_post E u j t w =
     (let call = \<lparr>http_method = ''POST'', url = u, json_arg = j, timeout = t\<rparr>
      in (post E call, w\<lparr>sent := sent w @ [call]\<rparr>))"

subsection \<open>Formatting\<close>

text \<open>Python's \<^verbatim>\<open>str()\<close> of an \<^verbatim>\<open>int\<close>, for the status code in the log line.\<close>

fun str_nat :: "nat \<Rightarrow> string" where
  "str_nat n =
     (if n < 10 then [''0123456789'' ! n]
      else str_nat (n div 10) @ [''0123456789'' ! (n mod 10)])"

declare str_nat.simps [simp del]

definition str_int :: "int \<Rightarrow> string" where
  "str_int i = (if i < 0 then ''-'' @ str_nat (nat (- i)) else str_nat (nat i))"

subsection \<open>The handler\<close>

definition REMOTE_BASE_URL :: string where
  "REMOTE_BASE_URL = ''https://ruojp8phda.execute-api.us-east-1.amazonaws.com/prod/''"

record response =
  status :: int
  body :: "(string \<times> json) list"

text \<open>The field names of a response body, in the order written.\<close>

definition fields :: "response \<Rightarrow> string list" where
  "fields r = map fst (body r)"

text \<open>The three \<^verbatim>\<open>jsonify(...)\<close> answers of the handler, each with its status code.\<close>

definition invalid_payload_response :: response where
  "invalid_payload_response =
     \<lparr>status = 400, body = [(''error'', JString ''Invalid JSON payload'')]\<rparr>"

definition forward_failed_response :: "pyexn \<Rightarrow> response" where
  "forward_failed_response e =
     \<lparr>status = 500,
      body = [(''status'', JString ''error''),
              (''message'', JString ''Failed to forward to remote''),
              (''error'', JString (str_of e))]\<rparr>"

definition success_response :: "int \<Rightarrow> response" where
  "success_response remote_status =
     \<lparr>status = 200,
      body = [(''status'', JString ''success''),
              (''message'', JString ''Alert received and forwarded''),
              (''remote_status'', JInt remote_status)]\<rparr>"

text \<open>The three f-strings of the handler.\<close>

definition triggered_message :: "env \<Rightarrow> string \<Rightarrow> json \<Rightarrow> string" where
  "triggered_message E timestamp data =
     ''['' @ timestamp @ ''] TradingView Webhook Triggered: '' @ py_str E data"

definition forwarded_message :: "string \<Rightarrow> int \<Rightarrow> string \<Rightarrow> string" where
  "forwarded_message timestamp remote_status remote_text =
     ''['' @ timestamp @ ''] Forwarded to remote: '' @ REMOTE_BASE_URL @ '' | Status: ''
       @ str_int remote_status @ '' | Response: '' @ remote_text"

definition error_message :: "string \<Rightarrow> pyexn \<Rightarrow> string" where
  "error_message timestamp e =
     ''['' @ timestamp @ ''] Error forwarding to remote: '' @ str_of e"

text \<open>
  \<^verbatim>\<open>webhook()\<close>. The result is \<open>Inl e\<close> when the handler raises \<open>e\<close>, which leaves it
  without a response of its own, and \<open>Inr r\<close> for a response \<open>r\<close> it returns. It raises what
  \<^verbatim>\<open>request.json\<close> raises on line 16 and what \<^verbatim>\<open>print\<close> raises on line 24, both outside the
  \<^verbatim>\<open>try\<close> of lines 27 to 34; the receipt is logged on line 23, before the \<^verbatim>\<open>print\<close>.
\<close>

definition webhook :: "env \<Rightarrow> request_body \<Rightarrow> world \<Rightarrow> (pyexn + response) \<times> world" where
  "webhook E rq w =
     (case request_json rq of
        Inl e \<Rightarrow> (Inl e, w)
      | Inr data \<Rightarrow>
          if \<not> truthy data then (Inr invalid_payload_response, w)
          else
            let timestamp = now E;
                log_message = triggered_message E timestamp data;
                w1 = logging_info log_message w
            in (case print E log_message w1 of
                  Inl e \<Rightarrow> (Inl e, w1)
                | Inr w2 \<Rightarrow>
                    (case requests_post E REMOTE_BASE_URL data 10 w2 of
                       (Responded remote_status remote_text, w3) \<Rightarrow>
                         (Inr (success_response remote_status),
                          logging_info (forwarded_message timestamp remote_status remote_text)
                            w3)
                     | (Raised e, w3) \<Rightarrow>
                         (Inr (forward_failed_response e),
                          logging_error (error_message timestamp e) w3))))"

subsection \<open>What one request adds to the world\<close>

text \<open>The outbound calls and the log records that handling \<open>rq\<close> appends.\<close>

definition forwarded :: "env \<Rightarrow> request_body \<Rightarrow> world \<Rightarrow> outbound_call list" where
  "forwarded E rq w = drop (length (sent w)) (sent (snd (webhook E rq w)))"

definition logged :: "env \<Rightarrow> request_body \<Rightarrow> world \<Rightarrow> log_record list" where
  "logged E rq w = drop (length (log w)) (log (snd (webhook E rq w)))"

text \<open>The call that line 28 makes for the payload \<open>data\<close>.\<close>

definition forward_call :: "json \<Rightarrow> outbound_call" where
  "forward_call data =
     \<lparr>http_method = ''POST'', url = REMOTE_BASE_URL, json_arg = data, timeout = 10\<rparr>"

subsection \<open>Sample inputs\<close>

text \<open>A state in which nothing has been logged, printed or sent yet.\<close>

definition empty_world :: world where
  "empty_world = \<lparr>log = [], stdout = [], sent = []\<rparr>"

text \<open>
  The alert \<^verbatim>\<open>{"a":1}\<close>, once as a compact body and once with a space after the colon;
  both decode to the same \<^verbatim>\<open>dict\<close>. Then the empty object and the empty array.
\<close>

definition alert :: json where
  "alert = JObject [(''a'', JInt 1)]"

definition alert_request :: request_body where
  \<open>alert_request = ValidJson ''{"a":1}'' alert\<close>

definition alert_request_spaced :: request_body where
  \<open>alert_request_spaced = ValidJson ''{"a": 1}'' alert\<close>

definition empty_object_request :: request_body where
  "empty_object_request = ValidJson ''{}'' (JObject [])"

definition empty_array_request :: request_body where
  "empty_array_request = ValidJson ''[]'' (JArray [])"

text \<open>
  Surroundings at the same moment. In four the standard output takes every line: a remote
  that answers 200, one that answers 200 with another body, one that answers 500, and one
  that cannot be reached in time. In the fifth the standard output has been closed.
\<close>

definition env_with :: "post_outcome \<Rightarrow> env" where
  "env_with outcome =
     \<lparr>now = ''2024-05-01 12:00:00'', py_str = (\<lambda>d. ''{'a': 1}''),
      print_raises = (\<lambda>line. None), post = (\<lambda>c. outcome)\<rparr>"

definition env_ok :: env where
  "env_ok = env_with (Responded 200 ''ok'')"

definition env_ok_other_body :: env where
  "env_ok_other_body = env_with (Responded 200 ''accepted'')"

definition env_remote_error :: env where
  "env_remote_error = env_with (Responded 500 ''Internal Server Error'')"

definition env_timeout :: env where
  "env_timeout = env_with (Raised (PyException ''Read timed out. (read timeout=10)''))"

definition env_stdout_closed :: env where
  "env_stdout_closed =
     (env_with (Responded 200 ''ok''))
       \<lparr>print_raises := (\<lambda>line. Some (PyException ''I/O operation on closed file.''))\<rparr>"

section \<open>Properties\<close>

subsection \<open>The handler, path by path\<close>

lemma webhook_raise:
  "request_json rq = Inl e \<Longrightarrow> webhook E rq w = (Inl e, w)"
  by (simp add: webhook_def)

lemma webhook_falsy:
  "request_json rq = Inr v \<Longrightarrow> \<not> truthy v \<Longrightarrow> webhook E rq w = (Inr invalid_payload_response, w)"
  by (simp add: webhook_def)

lemma webhook_print_raised:
  assumes "request_json rq = Inr v" and "truthy v"
    and "print_raises E (triggered_message E (now E) v) = Some e"
  shows "webhook E rq w =
    (Inl e, w\<lparr>log := log w @ [\<lparr>level = INFO, message = triggered_message E (now E) v\<rparr>]\<rparr>)"
  using assms
  by (simp add: webhook_def logging_info_def print_def Let_def)

lemma webhook_responded:
  assumes "request_json rq = Inr v" and "truthy v"
    and "print_raises E (triggered_message E (now E) v) = None"
    and "post E (forward_call v) = Responded c t"
  shows "webhook E rq w =
    (Inr (success_response c),
     w\<lparr>log := log w @ [\<lparr>level = INFO, message = triggered_message E (now E) v\<rparr>,
                       \<lparr>level = INFO, message = forwarded_message (now E) c t\<rparr>],
       stdout := stdout w @ [triggered_message E (now E) v],
       sent := sent w @ [forward_call v]\<rparr>)"
  using assms
  by (simp add: webhook_def requests_post_def forward_call_def logging_info_def print_def Let_def)

lemma webhook_raised:
  assumes "request_json rq = Inr v" and "truthy v"
    and "print_raises E (triggered_message E (now E) v) = None"
    and "post E (forward_call v) = Raised e"
  shows "webhook E rq w =
    (Inr (forward_failed_response e),
     w\<lparr>log := log w @ [\<lparr>level = INFO, message = triggered_message E (now E) v\<rparr>,
                       \<lparr>level = ERROR, message = error_message (now E) e\<rparr>],
       stdout := stdout w @ [triggered_message E (now E) v],
       sent := sent w @ [forward_call v]\<rparr>)"
  using assms
  by (simp add: webhook_def requests_post_def forward_call_def logging_info_def
      logging_error_def print_def Let_def)

text \<open>The handler runs one of these five paths.\<close>

lemma webhook_paths:
  obtains (raise) e where "request_json rq = Inl e"
  | (falsy) v where "request_json rq = Inr v" and "\<not> truthy v"
  | (print_raised) v e where "request_json rq = Inr v" and "truthy v"
      and "print_raises E (triggered_message E (now E) v) = Some e"
  | (responded) v c t where "request_json rq = Inr v" and "truthy v"
      and "print_raises E (triggered_message E (now E) v) = None"
      and "post E (forward_call v) = Responded c t"
  | (raised) v e where "request_json rq = Inr v" and "truthy v"
      and "print_raises E (triggered_message E (now E) v) = None"
      and "post E (forward_call v) = Raised e"
proof (cases "request_json rq")
  case (Inl e)
  then show ?thesis by (rule raise)
next
  case (Inr v)
  show ?thesis
  proof (cases "truthy v")
    case False
    with Inr show ?thesis by (rule falsy)
  next
    case True
    show ?thesis
    proof (cases "print_raises E (triggered_message E (now E) v)")
      case (Some e)
      with Inr True show ?thesis by (rule print_raised)
    next
      case None
      show ?thesis
      proof (cases "post E (forward_call v)")
        case (Responded c t)
        with Inr True None show ?thesis by (rule responded)
      next
        case (Raised e)
        with Inr True None show ?thesis by (rule raised)
      qed
    qed
  qed
qed

lemma forwarded_cases:
  "forwarded E rq w =
     (case request_json rq of
        Inl e \<Rightarrow> []
      | Inr v \<Rightarrow>
          if truthy v \<and> print_raises E (triggered_message E (now E) v) = None
          then [forward_call v] else [])"
proof (cases rule: webhook_paths [where rq = rq and E = E])
  case (raise e)
  then show ?thesis by (simp add: forwarded_def webhook_raise)
next
  case (falsy v)
  then show ?thesis by (simp add: forwarded_def webhook_falsy)
next
  case (print_raised v e)
  then show ?thesis by (simp add: forwarded_def webhook_print_raised)
next
  case (responded v c t)
  then show ?thesis by (simp add: forwarded_def webhook_responded)
next
  case (raised v e)
  then show ?thesis by (simp add: forwarded_def webhook_raised)
qed

lemma logged_cases:
  "logged E rq w =
     (case request_json rq of
        Inl e \<Rightarrow> []
      | Inr v \<Rightarrow>
          if truthy v then
            \<lparr>level = INFO, message = triggered_message E (now E) v\<rparr> #
            (case print_raises E (triggered_message E (now E) v) of
               Some e \<Rightarrow> []
             | None \<Rightarrow>
                 [case post E (forward_call v) of
                    Responded k t \<Rightarrow> \<lparr>level = INFO, message = forwarded_message (now E) k t\<rparr>
                  | Raised e \<Rightarrow> \<lparr>level = ERROR, message = error_message (now E) e\<rparr>])
          else [])"
proof (cases rule: webhook_paths [where rq = rq and E = E])
  case (raise e)
  then show ?thesis by (simp add: logged_def webhook_raise)
next
  case (falsy v)
  then show ?thesis by (simp add: logged_def webhook_falsy)
next
  case (print_raised v e)
  then show ?thesis by (simp add: logged_def webhook_print_raised)
next
  case (responded v c t)
  then show ?thesis by (simp add: logged_def webhook_responded)
next
  case (raised v e)
  then show ?thesis by (simp add: logged_def webhook_raised)
qed

lemma response_cases:
  "fst (webhook E rq w) =
     (case request_json rq of
        Inl e \<Rightarrow> Inl e
      | Inr v \<Rightarrow>
          if truthy v then
            (case print_raises E (triggered_message E (now E) v) of
               Some e \<Rightarrow> Inl e
             | None \<Rightarrow>
                 (case post E (forward_call v) of
                    Responded k t \<Rightarrow> Inr (success_response k)
                  | Raised e \<Rightarrow> Inr (forward_failed_response e)))
          else Inr invalid_payload_response)"
proof (cases rule: webhook_paths [where rq = rq and E = E])
  case (raise e)
  then show ?thesis by (simp add: webhook_raise)
next
  case (falsy v)
  then show ?thesis by (simp add: webhook_falsy)
next
  case (print_raised v e)
  then show ?thesis by (simp add: webhook_print_raised)
next
  case (responded v c t)
  then show ?thesis by (simp add: webhook_responded)
next
  case (raised v e)
  then show ?thesis by (simp add: webhook_raised)
qed

text \<open>The state only grows: what was logged and sent before is still there, in front.\<close>

lemma log_appended: "log (snd (webhook E rq w)) = log w @ logged E rq w"
proof (cases rule: webhook_paths [where rq = rq and E = E])
  case (raise e)
  then show ?thesis by (simp add: logged_def webhook_raise)
next
  case (falsy v)
  then show ?thesis by (simp add: logged_def webhook_falsy)
next
  case (print_raised v e)
  then show ?thesis by (simp add: logged_def webhook_print_raised)
next
  case (responded v c t)
  then show ?thesis by (simp add: logged_def webhook_responded)
next
  case (raised v e)
  then show ?thesis by (simp add: logged_def webhook_raised)
qed

lemma sent_appended: "sent (snd (webhook E rq w)) = sent w @ forwarded E rq w"
proof (cases rule: webhook_paths [where rq = rq and E = E])
  case (raise e)
  then show ?thesis by (simp add: forwarded_def webhook_raise)
next
  case (falsy v)
  then show ?thesis by (simp add: forwarded_def webhook_falsy)
next
  case (print_raised v e)
  then show ?thesis by (simp add: forwarded_def webhook_print_raised)
next
  case (responded v c t)
  then show ?thesis by (simp add: forwarded_def webhook_responded)
next
  case (raised v e)
  then show ?thesis by (simp add: forwarded_def webhook_raised)
qed

text \<open>
  A call is forwarded exactly for a truthy payload whose alert line has been printed, and
  it is the call of line 28.
\<close>

lemma forwarded_member:
  "c \<in> set (forwarded E rq w) \<longleftrightarrow>
     (\<exists>v. request_json rq = Inr v \<and> truthy v
        \<and> print_raises E (triggered_message E (now E) v) = None \<and> c = forward_call v)"
  by (cases "request_json rq") (auto simp add: forwarded_cases)

lemma forwarded_single:
  "forwarded E rq w = [c] \<longleftrightarrow>
     (\<exists>v. request_json rq = Inr v \<and> truthy v
        \<and> print_raises E (triggered_message E (now E) v) = None \<and> c = forward_call v)"
  by (cases "request_json rq") (auto simp add: forwarded_cases)

lemma valid_json_body_decoded:
  "valid_json_body rq \<Longrightarrow> request_json rq = Inr (decoded rq)"
  by (cases rq) simp_all

lemma responses_differ:
  "success_response k \<noteq> invalid_payload_response"
  "forward_failed_response e \<noteq> invalid_payload_response"
  by (simp_all add: success_response_def forward_failed_response_def invalid_payload_response_def)

text \<open>The sample surroundings: which of them print, and what their remote does.\<close>

lemma sample_prints:
  "print_raises (env_with outcome) line = None"
  "print_raises env_ok line = None"
  "print_raises env_ok_other_body line = None"
  "print_raises env_remote_error line = None"
  "print_raises env_timeout line = None"
  "print_raises env_stdout_closed line = Some (PyException ''I/O operation on closed file.'')"
  by (simp_all add: env_with_def env_ok_def env_ok_other_body_def env_remote_error_def
      env_timeout_def env_stdout_closed_def)

subsection \<open>Rejection of the payload (C1)\<close>

text \<open>
  C1 as stated does not hold: the empty object \<^verbatim>\<open>{}\<close> is a valid JSON body, yet
  \<^verbatim>\<open>not data\<close> is true for it, so the handler answers 400 with the error body, forwards
  nothing and logs nothing.
\<close>

theorem empty_object_rejected:
  "valid_json_body empty_object_request
   \<and> fst (webhook env_ok empty_object_request empty_world) = Inr invalid_payload_response
   \<and> forwarded env_ok empty_object_request empty_world = []
   \<and> logged env_ok empty_object_request empty_world = []"
  by (simp add: response_cases forwarded_cases logged_cases empty_object_request_def)

text \<open>
  C1, amended: the handler answers HTTP 400 with \<^verbatim>\<open>{"error": "Invalid JSON payload"}\<close> if
  and only if \<^verbatim>\<open>request.json\<close> yields a falsy value (\<^verbatim>\<open>None\<close>, \<^verbatim>\<open>false\<close>, zero, an empty string,
  list or object); in that case no forwarding request is issued; and for every truthy
  value the handler proceeds to log the receipt and, once the \<^verbatim>\<open>print\<close> of line 24 has
  returned, to forward the value. What happens to the forwarding when that \<^verbatim>\<open>print\<close>
  raises is left open here.
\<close>

theorem webhook_rejects_exactly_falsy:
  "(fst (webhook E rq w) = Inr invalid_payload_response
      \<longleftrightarrow> (\<exists>v. request_json rq = Inr v \<and> \<not> truthy v))
   \<and> (fst (webhook E rq w) = Inr invalid_payload_response \<longrightarrow> forwarded E rq w = [])
   \<and> (\<forall>v. request_json rq = Inr v \<and> truthy v \<longrightarrow>
         hd (logged E rq w) = \<lparr>level = INFO, message = triggered_message E (now E) v\<rparr>
         \<and> logged E rq w \<noteq> []
         \<and> (print_raises E (triggered_message E (now E) v) = None
              \<longrightarrow> forwarded E rq w = [forward_call v]))"
proof (cases rule: webhook_paths [where rq = rq and E = E])
  case (raise e)
  then show ?thesis by (simp add: webhook_raise)
next
  case (falsy v)
  then show ?thesis by (simp add: webhook_falsy forwarded_cases)
next
  case (print_raised v e)
  then show ?thesis
    by (simp add: webhook_print_raised forwarded_cases logged_cases)
next
  case (responded v c t)
  then show ?thesis
    by (simp add: webhook_responded responses_differ forwarded_cases logged_cases)
next
  case (raised v e)
  then show ?thesis
    by (simp add: webhook_raised responses_differ forwarded_cases logged_cases)
qed

text \<open>
  The amended C1 at work: the empty object is rejected and nothing is forwarded; the alert
  is truthy and its line is printed, so it is logged and forwarded.
\<close>

theorem webhook_rejects_exactly_falsy_witness:
  "fst (webhook env_ok empty_object_request empty_world) = Inr invalid_payload_response
   \<and> forwarded env_ok empty_object_request empty_world = []
   \<and> request_json alert_request = Inr alert \<and> truthy alert
   \<and> print_raises env_ok (triggered_message env_ok (now env_ok) alert) = None
   \<and> hd (logged env_ok alert_request empty_world)
       = \<lparr>level = INFO, message = triggered_message env_ok (now env_ok) alert\<rparr>
   \<and> forwarded env_ok alert_request empty_world = [forward_call alert]"
proof -
  have a: "fst (webhook env_ok empty_object_request empty_world) = Inr invalid_payload_response"
    by (simp add: response_cases empty_object_request_def)
  have b: "request_json alert_request = Inr alert" and c: "truthy alert"
    by (simp_all add: alert_request_def alert_def)
  have d: "print_raises env_ok (triggered_message env_ok (now env_ok) alert) = None"
    by (simp add: sample_prints)
  from webhook_rejects_exactly_falsy [of env_ok empty_object_request empty_world]
    webhook_rejects_exactly_falsy [of env_ok alert_request empty_world] a b c d
  show ?thesis by simp
qed

subsection \<open>Outcome of the forwarding attempt (C2, C3, C4)\<close>






text \<open>
  C4: for a request with a valid JSON body whose forwarding call was made and raised \<open>e\<close>,
  the handler logs, after the receipt, one ERROR record with the text of \<open>e\<close>, and returns
  HTTP 500 with \<^verbatim>\<open>status\<close> error, the message \<^verbatim>\<open>Failed to forward to remote\<close> and, as
  \<^verbatim>\<open>error\<close>, the text of \<open>e\<close>.
\<close>

theorem webhook_failure:
  assumes "valid_json_body rq" and "forwarded E rq w = [c]" and "post E c = Raised e"
  shows "fst (webhook E rq w) =
           Inr \<lparr>status = 500,
                body = [(''status'', JString ''error''),
                        (''message'', JString ''Failed to forward to remote''),
                        (''error'', JString (str_of e))]\<rparr>
       \<and> logged E rq w =
           [\<lparr>level = INFO, message = triggered_message E (now E) (decoded rq)\<rparr>,
            \<lparr>level = ERROR,
             message = ''['' @ now E @ ''] Error forwarding to remote: '' @ str_of e\<rparr>]"
proof -
  from assms(2) obtain v where v: "request_json rq = Inr v" "truthy v"
    "print_raises E (triggered_message E (now E) v) = None" "c = forward_call v"
    by (auto simp add: forwarded_single)
  from assms(1) v(1) have d: "decoded rq = v"
    by (simp add: valid_json_body_decoded)
  from v assms(3) d show ?thesis
    by (simp add: response_cases logged_cases forward_failed_response_def error_message_def)
qed

text \<open>C4 at work: a timeout of the remote gives HTTP 500 with \<^verbatim>\<open>status\<close> error.\<close>

theorem webhook_failure_witness:
  "valid_json_body alert_request
   \<and> forwarded env_timeout alert_request empty_world = [forward_call alert]
   \<and> post env_timeout (forward_call alert) = Raised (PyException ''Read timed out. (read timeout=10)'')
   \<and> fst (webhook env_timeout alert_request empty_world) =
        Inr \<lparr>status = 500,
             body = [(''status'', JString ''error''),
                     (''message'', JString ''Failed to forward to remote''),
                     (''error'', JString ''Read timed out. (read timeout=10)'')]\<rparr>
   \<and> map level (logged env_timeout alert_request empty_world) = [INFO, ERROR]"
proof -
  have a: "valid_json_body alert_request"
    by (simp add: alert_request_def)
  have b: "forwarded env_timeout alert_request empty_world = [forward_call alert]"
    by (simp add: forwarded_cases sample_prints alert_request_def alert_def)
  have c: "post env_timeout (forward_call alert)
      = Raised (PyException ''Read timed out. (read timeout=10)'')"
    by (simp add: env_timeout_def env_with_def)
  from webhook_failure [OF a b c] a b c show ?thesis by simp
qed

subsection \<open>What is forwarded (C5, C7, C8)\<close>

text \<open>
  C5 as stated does not hold. The handler never sees the bytes of the inbound body: it
  hands the decoded value to \<^verbatim>\<open>requests.post(..., json=data)\<close>, which serialises it anew.
  The bodies \<^verbatim>\<open>{"a":1}\<close> and \<^verbatim>\<open>{"a": 1}\<close> differ, decode to the same value and so lead to
  one and the same outbound call; whatever bytes the client writes for that call, they
  cannot be identical to both inbound bodies.
\<close>

theorem forwarded_bytes_not_inbound_bytes:
  "valid_json_body alert_request \<and> valid_json_body alert_request_spaced
   \<and> raw alert_request \<noteq> raw alert_request_spaced
   \<and> forwarded env_ok alert_request empty_world = [forward_call alert]
   \<and> forwarded env_ok alert_request_spaced empty_world = [forward_call alert]
   \<and> \<not> (\<exists>wire_bytes :: outbound_call \<Rightarrow> string.
          wire_bytes (hd (forwarded env_ok alert_request empty_world)) = raw alert_request
          \<and> wire_bytes (hd (forwarded env_ok alert_request_spaced empty_world))
              = raw alert_request_spaced)"
  by (auto simp add: forwarded_cases sample_prints alert_request_def alert_request_spaced_def alert_def)

text \<open>
  C5, amended: for every request with a valid JSON body that is forwarded, the JSON value
  handed to the forwarding call is identical to the value decoded from the inbound body
  (equality of the decoded values, the payload being passed through unchanged); the bytes
  on the wire are the HTTP client's own serialisation of that value.
\<close>

theorem forwarded_value_unchanged:
  assumes "valid_json_body rq" and "c \<in> set (forwarded E rq w)"
  shows "json_arg c = decoded rq"
proof -
  from assms(2) obtain v where v: "request_json rq = Inr v" "c = forward_call v"
    by (auto simp add: forwarded_member)
  from assms(1) v(1) have "decoded rq = v"
    by (simp add: valid_json_body_decoded)
  with v(2) show ?thesis
    by (simp add: forward_call_def)
qed

text \<open>The amended C5 at work: the alert is forwarded as the value it decodes to.\<close>

theorem forwarded_value_unchanged_witness:
  "valid_json_body alert_request
   \<and> forward_call alert \<in> set (forwarded env_ok alert_request empty_world)
   \<and> json_arg (forward_call alert) = JObject [(''a'', JInt 1)]"
proof -
  have a: "valid_json_body alert_request"
    by (simp add: alert_request_def)
  have b: "forward_call alert \<in> set (forwarded env_ok alert_request empty_world)"
    by (simp add: forwarded_cases sample_prints alert_request_def alert_def)
  from forwarded_value_unchanged [OF a b] a b show ?thesis
    by (simp add: alert_request_def alert_def)
qed

text \<open>
  C7: every call that handling a request sends out is a POST to \<^verbatim>\<open>REMOTE_BASE_URL\<close>, one
  fixed \<^verbatim>\<open>https\<close> address whatever the request, carrying the JSON value that
  \<^verbatim>\<open>request.json\<close> gave, with a timeout of 10 seconds.
\<close>

theorem outbound_call_shape:
  assumes "c \<in> set (forwarded E rq w)"
  shows "http_method c = ''POST''
       \<and> url c = ''https://ruojp8phda.execute-api.us-east-1.amazonaws.com/prod/''
       \<and> take 8 (url c) = ''https://''
       \<and> request_json rq = Inr (json_arg c)
       \<and> timeout c = 10"
proof -
  from assms obtain v where v: "request_json rq = Inr v" "c = forward_call v"
    by (auto simp add: forwarded_member)
  then show ?thesis
    by (simp add: forward_call_def REMOTE_BASE_URL_def)
qed

text \<open>C7 at work, on the call made for the alert.\<close>

theorem outbound_call_shape_witness:
  "forward_call alert \<in> set (forwarded env_ok alert_request empty_world)
   \<and> http_method (forward_call alert) = ''POST''
   \<and> take 8 (url (forward_call alert)) = ''https://''
   \<and> request_json alert_request = Inr (json_arg (forward_call alert))
   \<and> timeout (forward_call alert) = 10"
proof -
  have b: "forward_call alert \<in> set (forwarded env_ok alert_request empty_world)"
    by (simp add: forwarded_cases sample_prints alert_request_def alert_def)
  from outbound_call_shape [OF b] b show ?thesis by simp
qed

text \<open>
  C8: handling one request appends at most one outbound call, whatever the request, the
  remote's behaviour and the state before: a single attempt, never repeated.
\<close>

theorem webhook_single_attempt:
  "length (forwarded E rq w) \<le> 1"
  by (simp add: forwarded_cases split: sum.split)

subsection \<open>Log entries (C6)\<close>

text \<open>
  C6 as stated does not hold: a request whose body is the empty array \<^verbatim>\<open>[]\<close> is received
  and answered with 400, and leaves no log entry at all, the return of line 18 coming
  before the logging of line 23.
\<close>

theorem rejected_request_not_logged:
  "fst (webhook env_ok empty_array_request empty_world) = Inr invalid_payload_response
   \<and> logged env_ok empty_array_request empty_world = []
   \<and> log (snd (webhook env_ok empty_array_request empty_world)) = []"
  by (simp add: response_cases logged_cases log_appended empty_array_request_def
      empty_world_def)

text \<open>
  C6, amended: every request whose decoded value is truthy, and so passes the check of
  line 17, produces exactly one log entry recording its receipt, and every request for
  which a forwarding attempt is made produces exactly one additional log entry recording
  the forwarding outcome (the remote status and response at level INFO, or the error at
  level ERROR); such a request produces no more and no fewer log entries than this, and a
  request that the handler rejects with HTTP 400 produces none. The entries counted are
  those of the handler's own logging calls (lines 23, 31 and 33), which are appended to
  the log.
\<close>

theorem log_entries_per_request:
  "log (snd (webhook E rq w)) = log w @ logged E rq w
   \<and> (fst (webhook E rq w) = Inr invalid_payload_response \<longrightarrow> logged E rq w = [])
   \<and> (\<forall>v. request_json rq = Inr v \<and> truthy v \<longrightarrow>
        (\<exists>rest. logged E rq w
             = \<lparr>level = INFO, message = triggered_message E (now E) v\<rparr> # rest
          \<and> (forwarded E rq w = [] \<longrightarrow> rest = [])
          \<and> (\<forall>c. forwarded E rq w = [c] \<longrightarrow>
               rest = [case post E c of
                         Responded k t \<Rightarrow>
                           \<lparr>level = INFO, message = forwarded_message (now E) k t\<rparr>
                       | Raised e \<Rightarrow>
                           \<lparr>level = ERROR, message = error_message (now E) e\<rparr>])))"
proof (cases rule: webhook_paths [where rq = rq and E = E])
  case (raise e)
  then show ?thesis by (simp add: log_appended response_cases)
next
  case (falsy v)
  then show ?thesis by (simp add: log_appended logged_cases)
next
  case (print_raised v e)
  then show ?thesis
    by (simp add: log_appended response_cases forwarded_cases logged_cases)
next
  case (responded v c t)
  then show ?thesis
    by (simp add: log_appended response_cases responses_differ forwarded_cases logged_cases)
next
  case (raised v e)
  then show ?thesis
    by (simp add: log_appended response_cases responses_differ forwarded_cases logged_cases)
qed

text \<open>
  The amended C6 at work: the empty array is rejected and leaves no entry; the alert is
  forwarded and leaves two entries, the receipt and the outcome; and with the standard
  output closed the alert leaves its receipt only, no forwarding attempt being made.
\<close>

theorem log_entries_per_request_witness:
  "fst (webhook env_ok empty_array_request empty_world) = Inr invalid_payload_response
   \<and> logged env_ok empty_array_request empty_world = []
   \<and> request_json alert_request = Inr alert \<and> truthy alert
   \<and> forwarded env_ok alert_request empty_world = [forward_call alert]
   \<and> logged env_ok alert_request empty_world =
       [\<lparr>level = INFO, message = triggered_message env_ok (now env_ok) alert\<rparr>,
        \<lparr>level = INFO, message = forwarded_message (now env_ok) 200 ''ok''\<rparr>]
   \<and> forwarded env_stdout_closed alert_request empty_world = []
   \<and> logged env_stdout_closed alert_request empty_world =
       [\<lparr>level = INFO,
         message = triggered_message env_stdout_closed (now env_stdout_closed) alert\<rparr>]"
proof -
  have a: "fst (webhook env_ok empty_array_request empty_world) = Inr invalid_payload_response"
    by (simp add: response_cases empty_array_request_def)
  have b: "request_json alert_request = Inr alert" and c: "truthy alert"
    by (simp_all add: alert_request_def alert_def)
  have d: "forwarded env_ok alert_request empty_world = [forward_call alert]"
    using b c by (simp add: forwarded_cases sample_prints)
  have e: "post env_ok (forward_call alert) = Responded 200 ''ok''"
    by (simp add: env_ok_def env_with_def)
  have f: "forwarded env_stdout_closed alert_request empty_world = []"
    using b c by (simp add: forwarded_cases sample_prints)
  from log_entries_per_request [of env_ok empty_array_request empty_world]
    log_entries_per_request [of env_ok alert_request empty_world]
    log_entries_per_request [of env_stdout_closed alert_request empty_world]
    a b c d e f
  show ?thesis by auto
qed

subsection \<open>The responses (C9, C10)\<close>

text \<open>
  C9: a response that the handler returns has exactly one of three shapes: status 400 and
  the one field \<^verbatim>\<open>error\<close>; status 500 and the fields \<^verbatim>\<open>status\<close>, \<^verbatim>\<open>message\<close>, \<^verbatim>\<open>error\<close>; status
  200 and the fields \<^verbatim>\<open>status\<close>, \<^verbatim>\<open>message\<close>, \<^verbatim>\<open>remote_status\<close>. No field occurs twice, the
  field \<^verbatim>\<open>remote_status\<close> is there if and only if the status is 200, and the handler
  returns no other status code.
\<close>

theorem response_shapes:
  assumes "fst (webhook E rq w) = Inr r"
  shows "(status r = 400 \<and> fields r = [''error'']
          \<or> status r = 500 \<and> fields r = [''status'', ''message'', ''error'']
          \<or> status r = 200 \<and> fields r = [''status'', ''message'', ''remote_status''])
       \<and> (of_bool (status r = 400 \<and> set (fields r) = {''error''})
          + of_bool (status r = 500 \<and> set (fields r) = {''status'', ''message'', ''error''})
          + of_bool (status r = 200
               \<and> set (fields r) = {''status'', ''message'', ''remote_status''}) = (1::nat))
       \<and> distinct (fields r)
       \<and> (''remote_status'' \<in> set (fields r) \<longleftrightarrow> status r = 200)
       \<and> status r \<in> {200, 400, 500}"
proof (cases rule: webhook_paths [where rq = rq and E = E])
  case (raise e)
  with assms show ?thesis by (simp add: webhook_raise)
next
  case (falsy v)
  with assms have "r = invalid_payload_response"
    by (simp add: webhook_falsy)
  then show ?thesis
    by (simp add: invalid_payload_response_def fields_def)
next
  case (print_raised v e)
  with assms show ?thesis by (simp add: webhook_print_raised)
next
  case (responded v c t)
  with assms have "r = success_response c"
    by (simp add: response_cases)
  then show ?thesis
    by (simp add: success_response_def fields_def)
next
  case (raised v e)
  with assms have "r = forward_failed_response e"
    by (simp add: response_cases)
  then show ?thesis
    by (simp add: forward_failed_response_def fields_def)
qed

text \<open>C9 at work, on the response to the alert when the remote answers 200.\<close>

theorem response_shapes_witness:
  "fst (webhook env_ok alert_request empty_world) = Inr (success_response 200)
   \<and> status (success_response 200) = 200
   \<and> fields (success_response 200) = [''status'', ''message'', ''remote_status'']
   \<and> ''remote_status'' \<in> set (fields (success_response 200))"
proof -
  have a: "fst (webhook env_ok alert_request empty_world) = Inr (success_response 200)"
    by (simp add: response_cases alert_request_def alert_def env_ok_def env_with_def)
  have b: "status (success_response 200) = 200"
    by (simp add: success_response_def)
  from response_shapes [OF a] a b show ?thesis by simp
qed



end
